theory Spec2Isabelle
  imports Main "HOL-Library.Sublist"
begin

section \<open>Strings\<close>

text \<open>
  A Python \<open>str\<close> is a sequence of Unicode code points, and \<open>len\<close> counts code points.
  A string is therefore a list of code points (integers, as \<open>ord\<close> gives them);
  \<open>ustr\<close> turns an ASCII literal into such a list.
\<close>

type_synonym ustring = "int list"

definition ustr :: "string \<Rightarrow> ustring" where
  "ustr s = map of_char s"

text \<open>\<open>text.replace(c, r)\<close> for a one-character \<open>c\<close>.\<close>

definition replace_char :: "int \<Rightarrow> ustring \<Rightarrow> ustring \<Rightarrow> ustring" where
  "replace_char c r text = concat (map (\<lambda>x. if x = c then r else [x]) text)"

text \<open>
  \<open>normalize_text_for_search\<close>: the guard \<open>if not text: return text\<close>, then the six
  replacements in the order of the source: U+200B, U+200C, U+200D, U+00AD and U+FEFF are
  deleted, U+00A0 becomes a space.
\<close>

definition normalize_text_for_search :: "ustring \<Rightarrow> ustring" where
  "normalize_text_for_search text =
     (if text = [] then text
      else
        let text = replace_char 8203 [] text;
            text = replace_char 8204 [] text;
            text = replace_char 8205 [] text;
            text = replace_char 173 [] text;
            text = replace_char 65279 [] text;
            text = replace_char 160 [32] text
        in text)"

text \<open>
  \<open>s.find(sub, start)\<close>: the lowest index \<open>i \<ge> start\<close> at which \<open>sub\<close> occurs in \<open>s\<close>,
  or \<open>-1\<close>. An empty \<open>sub\<close> is found at \<open>start\<close> as long as \<open>start \<le> len(s)\<close>.
\<close>

fun find_aux :: "ustring \<Rightarrow> ustring \<Rightarrow> nat \<Rightarrow> nat option" where
  "find_aux sub [] pos = (if sub = [] then Some pos else None)"
| "find_aux sub (c # cs) pos =
     (if prefix sub (c # cs) then Some pos else find_aux sub cs (Suc pos))"

definition py_find :: "ustring \<Rightarrow> ustring \<Rightarrow> nat \<Rightarrow> int" where
  "py_find s sub start =
     (if length s < start then - 1
      else case find_aux sub (drop start s) start of None \<Rightarrow> - 1 | Some p \<Rightarrow> int p)"

text \<open>\<open>sub in s\<close>.\<close>

definition py_in :: "ustring \<Rightarrow> ustring \<Rightarrow> bool" where
  "py_in sub s = (py_find s sub 0 \<noteq> - 1)"

text \<open>
  \<open>s.replace(old, new)\<close>: occurrences are replaced from left to right without overlap;
  an empty \<open>old\<close> matches before every character and at the end.
\<close>

function py_replace :: "ustring \<Rightarrow> ustring \<Rightarrow> ustring \<Rightarrow> ustring" where
  "py_replace old new [] = (if old = [] then new else [])"
| "py_replace old new (c # cs) =
     (if old = [] then new @ c # py_replace old new cs
      else if prefix old (c # cs) then new @ py_replace old new (drop (length old) (c # cs))
      else c # py_replace old new cs)"
  by pat_completeness auto
termination
  by (relation "measure (\<lambda>(old, new, s). length s)") auto

section \<open>The document model\<close>

text \<open>
  The document object model is the one of the python-docx library, over lxml elements.
  A run element \<open>w:r\<close> has its formatting (\<open>w:rPr\<close>, opaque here: the type variable \<open>'s\<close>) and
  a sequence of content children: text elements \<open>w:t\<close>, tabs \<open>w:tab\<close> and breaks \<open>w:br\<close>.
  Each run element carries an identity \<open>rid\<close>: Python holds references to elements, and a
  reference stays valid after the element has been removed from its parent.
\<close>

datatype item = T ustring | Tab | Br

datatype 's run = Run (rid: nat) (rPr: 's) (items: "item list")

text \<open>
  A child of a paragraph element is a run, or another element (a hyperlink, a content
  control, a bookmark, ...) with children of its own.
\<close>

datatype 's node = R "'s run" | W "'s node list"

record 's para =
  style :: "ustring option"
  children :: "'s node list"

text \<open>
  A document: the body paragraphs (\<open>doc.paragraphs\<close>) and the tables
  (\<open>doc.tables\<close>, each a list of rows, each a list of cells, each a list of paragraphs).
\<close>

record 's document =
  paragraphs :: "'s para list"
  tables :: "'s para list list list list"

subsection \<open>Run text, as python-docx reads and writes it\<close>

text \<open>
  The getter of \<open>run.text\<close> concatenates the content children: the text of a \<open>w:t\<close>,
  a tab character for \<open>w:tab\<close>, a line feed for \<open>w:br\<close>.
\<close>

fun item_text :: "item \<Rightarrow> ustring" where
  "item_text (T t) = t"
| "item_text Tab = [9]"
| "item_text Br = [10]"

definition run_text :: "'s run \<Rightarrow> ustring" where
  "run_text r = concat (map item_text (items r))"

text \<open>
  The setter of \<open>run.text\<close> removes every content child and appends the new text: a tab
  character becomes a \<open>w:tab\<close>, a line feed or carriage return a \<open>w:br\<close>, and each maximal
  stretch of other characters one \<open>w:t\<close> (none for an empty stretch).
\<close>

definition flush :: "ustring \<Rightarrow> item list" where
  "flush bfr = (if bfr = [] then [] else [T bfr])"

fun add_text :: "ustring \<Rightarrow> ustring \<Rightarrow> item list" where
  "add_text [] bfr = flush bfr"
| "add_text (c # cs) bfr =
     (if c = 9 then flush bfr @ Tab # add_text cs []
      else if c = 13 \<or> c = 10 then flush bfr @ Br # add_text cs []
      else add_text cs (bfr @ [c]))"

definition set_run_text :: "'s run \<Rightarrow> ustring \<Rightarrow> 's run" where
  "set_run_text r text = Run (rid r) (rPr r) (add_text text [])"

subsection \<open>Element trees\<close>

text \<open>\<open>para.runs\<close>: the runs that are direct children of the paragraph element.\<close>

fun runs :: "'s node list \<Rightarrow> 's run list" where
  "runs [] = []"
| "runs (R r # ns) = r # runs ns"
| "runs (W _ # ns) = runs ns"

text \<open>\<open>find_all_runs\<close> of \<open>build_xml_run_map\<close>: every run element, at any depth, in document order.\<close>

fun find_all_runs :: "'s node \<Rightarrow> 's run list"
  and find_all_runs_list :: "'s node list \<Rightarrow> 's run list" where
  "find_all_runs (R r) = [r]"
| "find_all_runs (W ns) = find_all_runs_list ns"
| "find_all_runs_list [] = []"
| "find_all_runs_list (n # ns) = find_all_runs n @ find_all_runs_list ns"

text \<open>
  The tree with the run of identity \<open>i\<close> replaced by the nodes \<open>f r\<close>. It gives the four
  mutations of the source: rewriting a run in place, \<open>addnext\<close>, \<open>addprevious\<close> and \<open>remove\<close>.
\<close>

fun subst_node :: "nat \<Rightarrow> ('s run \<Rightarrow> 's node list) \<Rightarrow> 's node \<Rightarrow> 's node list"
  and subst_nodes :: "nat \<Rightarrow> ('s run \<Rightarrow> 's node list) \<Rightarrow> 's node list \<Rightarrow> 's node list" where
  "subst_node i f (R r) = (if rid r = i then f r else [R r])"
| "subst_node i f (W ns) = [W (subst_nodes i f ns)]"
| "subst_nodes i f [] = []"
| "subst_nodes i f (n # ns) = subst_node i f n @ subst_nodes i f ns"

definition attached :: "nat \<Rightarrow> 's node list \<Rightarrow> bool" where
  "attached i ns = (i \<in> set (map rid (find_all_runs_list ns)))"

definition addprevious :: "nat \<Rightarrow> 's run list \<Rightarrow> 's node list \<Rightarrow> 's node list" where
  "addprevious i new ns = subst_nodes i (\<lambda>r. map R new @ [R r]) ns"

definition remove_run :: "nat \<Rightarrow> 's node list \<Rightarrow> 's node list" where
  "remove_run i ns = subst_nodes i (\<lambda>r. []) ns"

text \<open>Every run identity of a well-formed paragraph occurs once.\<close>

definition wf_nodes :: "'s node list \<Rightarrow> bool" where
  "wf_nodes ns = distinct (map rid (find_all_runs_list ns))"

section \<open>Cloning and splitting runs\<close>

text \<open>
  \<open>clone_run_with_text\<close>: a deep copy of the run element (a new element, identity \<open>new\<close>);
  the first \<open>w:t\<close> of the copy gets the text, every later \<open>w:t\<close> the empty string. Other
  content children are copied as they are, and a copy without a \<open>w:t\<close> gets no text.
\<close>

fun set_first_t :: "ustring \<Rightarrow> item list \<Rightarrow> item list" where
  "set_first_t text [] = []"
| "set_first_t text (T t # its) = T text # its"
| "set_first_t text (Tab # its) = Tab # set_first_t text its"
| "set_first_t text (Br # its) = Br # set_first_t text its"

fun clear_later_t :: "bool \<Rightarrow> item list \<Rightarrow> item list" where
  "clear_later_t seen [] = []"
| "clear_later_t seen (T t # its) = (if seen then T [] else T t) # clear_later_t True its"
| "clear_later_t seen (Tab # its) = Tab # clear_later_t seen its"
| "clear_later_t seen (Br # its) = Br # clear_later_t seen its"

definition clone_run_with_text :: "nat \<Rightarrow> 's run \<Rightarrow> ustring \<Rightarrow> 's run" where
  "clone_run_with_text new source_run text =
     Run new (rPr source_run) (clear_later_t False (set_first_t text (items source_run)))"

text \<open>
  The paragraph element while it is processed: its children, and the identity that the
  next new element gets.
\<close>

record 's pstate =
  nodes :: "'s node list"
  nxt :: nat

text \<open>
  \<open>split_run_at(run, split_index)\<close>, for a run that is in the tree. It returns the pair of
  texts and the paragraph after the call.
\<close>

definition split_run_at :: "'s run \<Rightarrow> int \<Rightarrow> 's pstate \<Rightarrow> (ustring \<times> ustring) \<times> 's pstate" where
  "split_run_at run split_index st =
     (let original_text = run_text run in
      if split_index \<le> 0 then (([], original_text), st)
      else if split_index \<ge> int (length original_text) then ((original_text, []), st)
      else
        let left_text = take (nat split_index) original_text;
            right_text = drop (nat split_index) original_text;
            run' = set_run_text run left_text;
            right_run = clone_run_with_text (nxt st) run' right_text
        in ((left_text, right_text),
            st\<lparr>nodes := subst_nodes (rid run) (\<lambda>r. [R run', R right_run]) (nodes st),
               nxt := Suc (nxt st)\<rparr>))"

section \<open>The replace operation that preserves formatting\<close>

text \<open>
  Python raises where the model returns an error: \<open>IndexError\<close> for a list index out of
  range, \<open>AttributeError\<close> for \<open>run_element.getparent().remove(run_element)\<close> on an element
  that has no parent any more (\<open>getparent()\<close> is \<open>None\<close> then).
\<close>

datatype error = IndexError | AttributeError

text \<open>
  What the call shares over all paragraphs: the counter (\<open>nonlocal count\<close>) and the lines
  printed by \<open>_dbg\<close>, which prints when \<open>DEBUG_FIND_REPLACE\<close> is true.
\<close>

datatype message =
    StdMatchFound | StdNoMatch | XmlMatchFound | XmlNoMatch
  | StdMatches nat | StdApplied | XmlMatches nat | XmlApplied | TotalReplacements nat

record ctx =
  count :: nat
  out :: "message list"

definition dbg :: "bool \<Rightarrow> message \<Rightarrow> ctx \<Rightarrow> ctx" where
  "dbg debug msg c = (if debug then c\<lparr>out := out c @ [msg]\<rparr> else c)"

text \<open>
  The first loop of \<open>process_paragraph\<close>: the flattened text and the run map
  \<open>(start_pos, end_pos, run_idx)\<close> over \<open>enumerate(para.runs)\<close>.
\<close>

fun build_run_map :: "'s run list \<Rightarrow> nat \<Rightarrow> ustring \<Rightarrow> ustring \<times> (int \<times> int \<times> nat) list" where
  "build_run_map [] run_idx full_text = (full_text, [])"
| "build_run_map (run # rs) run_idx full_text =
     (let start_pos = int (length full_text);
          normalized_run_text = normalize_text_for_search (run_text run);
          full_text = full_text @ normalized_run_text;
          end_pos = int (length full_text);
          (final_text, run_map) = build_run_map rs (Suc run_idx) full_text
      in (final_text, if end_pos > start_pos then (start_pos, end_pos, run_idx) # run_map else run_map))"

text \<open>
  \<open>build_xml_run_map\<close>: over every run of the tree; the text of a run is the text of its
  \<open>w:t\<close> children followed by one space for each \<open>w:tab\<close>; a run with no such text is left out.
\<close>

fun t_texts :: "item list \<Rightarrow> ustring" where
  "t_texts [] = []"
| "t_texts (T t # its) = t @ t_texts its"
| "t_texts (Tab # its) = t_texts its"
| "t_texts (Br # its) = t_texts its"

definition tab_count :: "item list \<Rightarrow> nat" where
  "tab_count its = length (filter (\<lambda>i. i = Tab) its)"

fun xml_run_map_from :: "'s run list \<Rightarrow> ustring \<Rightarrow> ustring \<times> (int \<times> int \<times> 's run) list" where
  "xml_run_map_from [] full_text = (full_text, [])"
| "xml_run_map_from (run_element # rs) full_text =
     (let start_pos = int (length full_text);
          text = t_texts (items run_element) @ replicate (tab_count (items run_element)) 32
      in if text \<noteq> [] then
           let normalized_text = normalize_text_for_search text;
               full_text = full_text @ normalized_text;
               end_pos = int (length full_text);
               (final_text, xml_run_map) = xml_run_map_from rs full_text
           in (final_text, (start_pos, end_pos, run_element) # xml_run_map)
         else xml_run_map_from rs full_text)"

definition build_xml_run_map :: "'s node list \<Rightarrow> ustring \<times> (int \<times> int \<times> 's run) list" where
  "build_xml_run_map para_children = xml_run_map_from (find_all_runs_list para_children) []"

text \<open>
  The scan for the occurrences: \<open>while True\<close> with \<open>find\<close> from \<open>start_search\<close>, resuming at
  \<open>match_pos + 1\<close>. It ends because \<open>find\<close> answers at or after \<open>start_search\<close> and never past
  the end of the text.
\<close>

lemma find_aux_bounds:
  "find_aux sub xs pos = Some p \<Longrightarrow> pos \<le> p \<and> p \<le> pos + length xs"
  by (induction xs arbitrary: pos) (fastforce split: if_splits)+

lemma py_find_bounds:
  assumes "py_find s sub start \<noteq> - 1"
  shows "int start \<le> py_find s sub start \<and> py_find s sub start \<le> int (length s)"
proof -
  from assms obtain p where p: "find_aux sub (drop start s) start = Some p"
    and le: "start \<le> length s" and eq: "py_find s sub start = int p"
    by (auto simp: py_find_def split: if_splits option.splits)
  from find_aux_bounds[OF p] le have "start \<le> p \<and> p \<le> length s" by simp
  with eq show ?thesis by simp
qed

function find_matches :: "ustring \<Rightarrow> ustring \<Rightarrow> nat \<Rightarrow> (int \<times> int) list" where
  "find_matches full_text old_text_norm start_search =
     (let match_pos = py_find full_text old_text_norm start_search in
      if match_pos = - 1 then []
      else (match_pos, match_pos + int (length old_text_norm))
             # find_matches full_text old_text_norm (nat match_pos + 1))"
  by pat_completeness auto
termination
proof (relation "measure (\<lambda>(s, sub, start). Suc (length s) - start)", goal_cases)
  case 1
  show ?case by simp
next
  case (2 full_text old_text_norm start_search match_pos)
  then have "py_find full_text old_text_norm start_search \<noteq> - 1" by simp
  from py_find_bounds[OF this] 2 show ?case by (simp, linarith)
qed

declare find_matches.simps [simp del]

text \<open>
  The runs that overlap a match, with the overlap in the run's own coordinates. The
  source writes this loop twice, over run indices and over run elements.
\<close>

definition affected_runs :: "(int \<times> int \<times> 'a) list \<Rightarrow> int \<Rightarrow> int \<Rightarrow> ('a \<times> int \<times> int \<times> int) list" where
  "affected_runs run_map match_start match_end =
     concat (map (\<lambda>(start_pos, end_pos, run).
        if start_pos < match_end \<and> end_pos > match_start
        then [(run, max 0 (match_start - start_pos),
                    min (end_pos - start_pos) (match_end - start_pos), start_pos)]
        else []) run_map)"

text \<open>
  The loop that spreads the replacement text over clones of the runs to replace. Each
  entry is a run with its \<open>original_segment_len\<close> (the length of the run's text on the
  standard path, the length of the overlap on the XML path). The result is the clones,
  the text that remains and the next free identity.
\<close>

fun distribute :: "nat \<Rightarrow> ustring \<Rightarrow> ('s run \<times> int) list \<Rightarrow> 's run list \<times> ustring \<times> nat" where
  "distribute nx remaining_text [] = ([], remaining_text, nx)"
| "distribute nx remaining_text ((original_run, original_segment_len) # rest) =
     (if remaining_text = [] then ([], remaining_text, nx)
      else
        let (segment_text, remaining_text) =
              (if rest = [] then (remaining_text, [])
               else
                 let chars_to_take =
                       (if original_segment_len > 0
                        then min original_segment_len (int (length remaining_text))
                        else if remaining_text \<noteq> [] then 1 else 0)
                 in (take (nat chars_to_take) remaining_text, drop (nat chars_to_take) remaining_text))
        in if segment_text \<noteq> [] then
             let (clones, remaining_text, nx') = distribute (Suc nx) remaining_text rest
             in (clone_run_with_text nx original_run segment_text # clones, remaining_text, nx')
           else distribute nx remaining_text rest)"

text \<open>\<open>while remaining_text and runs_to_replace\<close>: one more clone of the last run.\<close>

definition add_remaining :: "'s run list \<Rightarrow> 's run list \<times> ustring \<times> nat \<Rightarrow> 's run list \<times> nat" where
  "add_remaining originals d =
     (case d of (replacement_runs, remaining_text, nx) \<Rightarrow>
        if remaining_text \<noteq> [] \<and> originals \<noteq> []
        then (replacement_runs @ [clone_run_with_text nx (last originals) remaining_text], Suc nx)
        else (replacement_runs, nx))"

text \<open>
  How one iteration of a loop over the matches ends: with \<open>continue\<close>, with an exception,
  or at the end of the loop body, where the source counts the replacement and prints a
  line.
\<close>

datatype outcome = Continue | Raised error | Applied

text \<open>
  \<open>for match_start, match_end in reversed(matches)\<close>: the loop body \<open>body\<close> works on the
  paragraph; \<open>count += 1\<close> and \<open>_dbg(...)\<close> follow when the body reaches its end. An
  exception ends the loop.
\<close>

fun for_matches ::
  "bool \<Rightarrow> message \<Rightarrow> ('m \<Rightarrow> 'st \<Rightarrow> outcome \<times> 'st) \<Rightarrow> 'm list \<Rightarrow> 'st \<Rightarrow> ctx
     \<Rightarrow> error option \<times> 'st \<times> ctx" where
  "for_matches debug applied body [] st c = (None, st, c)"
| "for_matches debug applied body (m # ms) st c =
     (case body m st of
        (Continue, st') \<Rightarrow> for_matches debug applied body ms st' c
      | (Raised e, st') \<Rightarrow> (Some e, st', c)
      | (Applied, st') \<Rightarrow>
          for_matches debug applied body ms st' (dbg debug applied (c\<lparr>count := count c + 1\<rparr>)))"

subsection \<open>The standard path\<close>

text \<open>
  The body of the loop over \<open>reversed(matches)\<close> in \<open>process_paragraph_standard\<close>.
  \<open>run_map\<close> is the map built before the first iteration; \<open>para.runs\<close> is read again from
  the tree each time the source reads it. Two assignments of the source have no effect
  and are left out: \<open>first_run\<close> is not read after the first split, and \<open>affected_runs\<close> is
  not read after its first and last entries have been taken.
\<close>

definition replace_match_standard ::
  "ustring \<Rightarrow> (int \<times> int \<times> nat) list \<Rightarrow> int \<times> int \<Rightarrow> 's pstate \<Rightarrow> outcome \<times> 's pstate" where
  "replace_match_standard new_text run_map m st =
     (case m of (match_start, match_end) \<Rightarrow>
      let affected = affected_runs run_map match_start match_end in
      if affected = [] then (Continue, st)
      else
        let rs = runs (nodes st);
            (first_run_idx, first_overlap_start, first_overlap_end, first_run_start) = hd affected;
            (last_run_idx, last_overlap_start, last_overlap_end, last_run_start) = last affected
        in
        if length rs \<le> first_run_idx then (Raised IndexError, st)
        else
          let first_run = rs ! first_run_idx;
              (st, first_run_idx, last_run_idx) =
                (if first_overlap_start > 0
                 then (snd (split_run_at first_run first_overlap_start st),
                       first_run_idx + 1, last_run_idx + 1)
                 else (st, first_run_idx, last_run_idx));
              rs = runs (nodes st)
          in
          if \<not> last_run_idx < length rs \<and> rs = [] then (Raised IndexError, st)
          else
            let last_run = (if last_run_idx < length rs then rs ! last_run_idx else last rs);
                last_run_text = run_text last_run;
                st = (if last_overlap_end < int (length last_run_text)
                      then snd (split_run_at last_run last_overlap_end st) else st);
                rs = runs (nodes st);
                runs_to_replace =
                  map (\<lambda>run_idx. rs ! run_idx) [first_run_idx ..< min (last_run_idx + 1) (length rs)]
            in
            if runs_to_replace = [] then (Continue, st)
            else
              let (replacement_runs, nx) =
                    add_remaining runs_to_replace
                      (distribute (nxt st) new_text
                         (map (\<lambda>original_run. (original_run, int (length (run_text original_run))))
                            runs_to_replace));
                  ns = (if replacement_runs \<noteq> [] \<and> runs_to_replace \<noteq> []
                        then fold (\<lambda>run_to_remove. remove_run (rid run_to_remove)) runs_to_replace
                               (addprevious (rid (hd runs_to_replace)) replacement_runs (nodes st))
                        else nodes st)
              in (Applied, st\<lparr>nodes := ns, nxt := nx\<rparr>))"

definition process_paragraph_standard ::
  "bool \<Rightarrow> ustring \<Rightarrow> (int \<times> int \<times> nat) list \<Rightarrow> ustring \<Rightarrow> ustring \<Rightarrow> 's pstate \<Rightarrow> ctx
     \<Rightarrow> error option \<times> 's pstate \<times> ctx" where
  "process_paragraph_standard debug full_text run_map old_text_norm new_text st c =
     (if full_text = [] \<or> \<not> py_in old_text_norm full_text then (None, st, c)
      else
        let matches = find_matches full_text old_text_norm 0;
            c = dbg debug (StdMatches (length matches)) c
        in for_matches debug StdApplied (replace_match_standard new_text run_map) (rev matches) st c)"

subsection \<open>The XML path\<close>

text \<open>
  \<open>run_element.getparent().remove(run_element)\<close> for each affected run, in order: it raises
  at the first one that is no longer in the tree.
\<close>

fun remove_each :: "'s run list \<Rightarrow> 's node list \<Rightarrow> error option \<times> 's node list" where
  "remove_each [] ns = (None, ns)"
| "remove_each (run_element # rs) ns =
     (if attached (rid run_element) ns then remove_each rs (remove_run (rid run_element) ns)
      else (Some AttributeError, ns))"

text \<open>
  The body of the loop over \<open>reversed(matches)\<close> in \<open>process_paragraph_xml\<close>. The run
  elements are those recorded in \<open>xml_run_map\<close> before the first iteration. The clone is
  written out in the source; it is the code of \<open>clone_run_with_text\<close>. \<open>addprevious\<close> on an
  element that is no longer in the tree leaves the tree as it is.
\<close>

definition replace_match_xml ::
  "ustring \<Rightarrow> (int \<times> int \<times> 's run) list \<Rightarrow> int \<times> int \<Rightarrow> 's pstate \<Rightarrow> outcome \<times> 's pstate" where
  "replace_match_xml new_text xml_run_map m st =
     (case m of (match_start, match_end) \<Rightarrow>
      let affected_xml_runs = affected_runs xml_run_map match_start match_end in
      if affected_xml_runs = [] then (Continue, st)
      else
        let (replacement_runs, nx) =
              add_remaining (map fst affected_xml_runs)
                (distribute (nxt st) new_text
                   (map (\<lambda>(run_element, overlap_start, overlap_end, run_start_pos).
                           (run_element, overlap_end - overlap_start)) affected_xml_runs))
        in
        if replacement_runs \<noteq> [] \<and> affected_xml_runs \<noteq> [] then
          (case remove_each (map fst affected_xml_runs)
                  (addprevious (rid (fst (hd affected_xml_runs))) replacement_runs (nodes st)) of
             (Some e, ns) \<Rightarrow> (Raised e, st\<lparr>nodes := ns, nxt := nx\<rparr>)
           | (None, ns) \<Rightarrow> (Applied, st\<lparr>nodes := ns, nxt := nx\<rparr>))
        else (Applied, st\<lparr>nxt := nx\<rparr>))"

definition process_paragraph_xml ::
  "bool \<Rightarrow> ustring \<Rightarrow> (int \<times> int \<times> 's run) list \<Rightarrow> ustring \<Rightarrow> ustring \<Rightarrow> 's pstate \<Rightarrow> ctx
     \<Rightarrow> error option \<times> 's pstate \<times> ctx" where
  "process_paragraph_xml debug xml_full_text xml_run_map old_text_norm new_text st c =
     (if xml_full_text = [] \<or> \<not> py_in old_text_norm xml_full_text then (None, st, c)
      else
        let matches = find_matches xml_full_text old_text_norm 0;
            c = dbg debug (XmlMatches (length matches)) c
        in for_matches debug XmlApplied (replace_match_xml new_text xml_run_map) (rev matches) st c)"

subsection \<open>One paragraph, and the whole document\<close>

text \<open>\<open>para.style and para.style.name.startswith("TOC")\<close>; \<open>style\<close> holds the style's name.\<close>

definition is_toc :: "('s, 'x) para_scheme \<Rightarrow> bool" where
  "is_toc para = (case style para of None \<Rightarrow> False | Some name \<Rightarrow> prefix (ustr ''TOC'') name)"

text \<open>An identity that no run of the paragraph has.\<close>

definition fresh_id :: "'s node list \<Rightarrow> nat" where
  "fresh_id ns = Suc (fold max (map rid (find_all_runs_list ns)) 0)"

text \<open>
  \<open>process_paragraph\<close>. The paragraph goes out as the calls have left it, also when one
  of them raised.
\<close>

definition process_paragraph ::
  "bool \<Rightarrow> ustring \<Rightarrow> ustring \<Rightarrow> 's para \<Rightarrow> ctx \<Rightarrow> error option \<times> 's para \<times> ctx" where
  "process_paragraph debug old_text new_text para c =
     (if is_toc para then (None, para, c)
      else
        let (full_text, run_map) = build_run_map (runs (children para)) 0 [];
            normalized_old_text = normalize_text_for_search old_text;
            st = \<lparr>nodes = children para, nxt = fresh_id (children para)\<rparr>;
            (e, st, c) =
              (if py_in normalized_old_text full_text
               then process_paragraph_standard debug full_text run_map normalized_old_text new_text
                      st (dbg debug StdMatchFound c)
               else
                 let c = dbg debug StdNoMatch c;
                     (xml_full_text, xml_run_map) = build_xml_run_map (nodes st)
                 in if py_in normalized_old_text xml_full_text
                    then process_paragraph_xml debug xml_full_text xml_run_map normalized_old_text
                           new_text st (dbg debug XmlMatchFound c)
                    else (None, st, dbg debug XmlNoMatch c))
        in (e, para\<lparr>children := nodes st\<rparr>, c))"

text \<open>
  A \<open>for\<close> loop over objects that are changed in place, with the counter and the printed
  lines threaded through. An exception ends the loop; the objects after the one that
  raised are as they were.
\<close>

fun for_each ::
  "('a \<Rightarrow> 'c \<Rightarrow> error option \<times> 'a \<times> 'c) \<Rightarrow> 'a list \<Rightarrow> 'c \<Rightarrow> error option \<times> 'a list \<times> 'c" where
  "for_each f [] c = (None, [], c)"
| "for_each f (x # xs) c =
     (case f x c of
        (Some e, x', c') \<Rightarrow> (Some e, x' # xs, c')
      | (None, x', c') \<Rightarrow>
          (case for_each f xs c' of (r, xs', c'') \<Rightarrow> (r, x' # xs', c'')))"

text \<open>\<open>os.getenv('MCP_WORD_DEBUG_FIND_REPLACE', '0') == '1'\<close>; \<open>None\<close> is an unset variable.\<close>

definition debug_find_replace :: "string option \<Rightarrow> bool" where
  "debug_find_replace env = ((case env of None \<Rightarrow> ''0'' | Some v \<Rightarrow> v) = ''1'')"

text \<open>
  \<open>find_and_replace_text_preserve_formatting\<close>. The result is what the call does: it
  returns the count (\<open>Inr\<close>) or raises (\<open>Inl\<close>); the document as the call leaves it; the
  lines printed.
\<close>

definition find_and_replace_text_preserve_formatting ::
  "string option \<Rightarrow> 's document \<Rightarrow> ustring \<Rightarrow> ustring
     \<Rightarrow> (error + nat) \<times> 's document \<times> message list" where
  "find_and_replace_text_preserve_formatting env doc old_text new_text =
     (let debug = debug_find_replace env;
          process = process_paragraph debug old_text new_text
      in case for_each process (paragraphs doc) \<lparr>count = 0, out = []\<rparr> of
           (Some e, ps, c) \<Rightarrow> (Inl e, doc\<lparr>paragraphs := ps\<rparr>, out c)
         | (None, ps, c) \<Rightarrow>
             (case for_each (for_each (for_each (for_each process))) (tables doc) c of
                (Some e, ts, c) \<Rightarrow> (Inl e, doc\<lparr>paragraphs := ps, tables := ts\<rparr>, out c)
              | (None, ts, c) \<Rightarrow>
                  (Inr (count c), doc\<lparr>paragraphs := ps, tables := ts\<rparr>,
                   out (dbg debug (TotalReplacements (count c)) c))))"

section \<open>The plain replace operation\<close>

text \<open>
  \<open>find_and_replace_text\<close>: in each paragraph that is not a table-of-contents paragraph
  and whose text contains \<open>old_text\<close>, every direct run whose text contains it gets
  \<open>run.text.replace(old_text, new_text)\<close>, and the counter goes up by one for each such run.
  \<open>para.text\<close> is the concatenation of the texts of \<open>para.runs\<close>.
\<close>

fun replace_in_runs :: "ustring \<Rightarrow> ustring \<Rightarrow> 's node list \<Rightarrow> nat \<Rightarrow> 's node list \<times> nat" where
  "replace_in_runs old_text new_text [] cnt = ([], cnt)"
| "replace_in_runs old_text new_text (R run # ns) cnt =
     (if py_in old_text (run_text run)
      then (case replace_in_runs old_text new_text ns (cnt + 1) of
              (ns', cnt') \<Rightarrow>
                (R (set_run_text run (py_replace old_text new_text (run_text run))) # ns', cnt'))
      else (case replace_in_runs old_text new_text ns cnt of
              (ns', cnt') \<Rightarrow> (R run # ns', cnt')))"
| "replace_in_runs old_text new_text (W w # ns) cnt =
     (case replace_in_runs old_text new_text ns cnt of (ns', cnt') \<Rightarrow> (W w # ns', cnt'))"

definition para_text :: "('s, 'x) para_scheme \<Rightarrow> ustring" where
  "para_text para = concat (map run_text (runs (children para)))"

definition replace_in_paragraph :: "ustring \<Rightarrow> ustring \<Rightarrow> 's para \<Rightarrow> nat \<Rightarrow> 's para \<times> nat" where
  "replace_in_paragraph old_text new_text para cnt =
     (if is_toc para then (para, cnt)
      else if py_in old_text (para_text para)
      then (case replace_in_runs old_text new_text (children para) cnt of
              (ns, cnt') \<Rightarrow> (para\<lparr>children := ns\<rparr>, cnt'))
      else (para, cnt))"

fun for_all :: "('a \<Rightarrow> 'c \<Rightarrow> 'a \<times> 'c) \<Rightarrow> 'a list \<Rightarrow> 'c \<Rightarrow> 'a list \<times> 'c" where
  "for_all f [] c = ([], c)"
| "for_all f (x # xs) c =
     (case f x c of (x', c') \<Rightarrow> (case for_all f xs c' of (xs', c'') \<Rightarrow> (x' # xs', c'')))"

definition find_and_replace_text :: "'s document \<Rightarrow> ustring \<Rightarrow> ustring \<Rightarrow> nat \<times> 's document" where
  "find_and_replace_text doc old_text new_text =
     (let replace = replace_in_paragraph old_text new_text
      in case for_all replace (paragraphs doc) 0 of
           (ps, cnt) \<Rightarrow>
             (case for_all (for_all (for_all (for_all replace))) (tables doc) cnt of
                (ts, cnt) \<Rightarrow> (cnt, doc\<lparr>paragraphs := ps, tables := ts\<rparr>)))"

section \<open>Normalization\<close>

lemma replace_char_append:
  "replace_char c r (xs @ ys) = replace_char c r xs @ replace_char c r ys"
  by (simp add: replace_char_def)

lemma replace_char_Nil: "replace_char c r [] = []"
  by (simp add: replace_char_def)

lemma replace_char_single: "replace_char c r [x] = (if x = c then r else [x])"
  by (simp add: replace_char_def)

text \<open>The six replacements without the guard for the empty string.\<close>

definition strip_chain :: "ustring \<Rightarrow> ustring" where
  "strip_chain text =
     replace_char 160 [32] (replace_char 65279 [] (replace_char 173 []
       (replace_char 8205 [] (replace_char 8204 [] (replace_char 8203 [] text)))))"

lemma normalize_chain: "normalize_text_for_search text = strip_chain text"
  by (simp add: normalize_text_for_search_def strip_chain_def replace_char_Nil)

lemma strip_chain_append: "strip_chain (xs @ ys) = strip_chain xs @ strip_chain ys"
  by (simp add: strip_chain_def replace_char_append)

lemma strip_chain_Nil: "strip_chain [] = []"
  by (simp add: strip_chain_def replace_char_Nil)

lemma strip_chain_single:
  "strip_chain [x] =
     (if x \<in> {8203, 8204, 8205, 173, 65279} then [] else if x = 160 then [32] else [x])"
  by (simp add: strip_chain_def replace_char_single replace_char_Nil)

lemma strip_chain_single_idem: "strip_chain (strip_chain [x]) = strip_chain [x]"
  by (simp add: strip_chain_single strip_chain_Nil)

lemma strip_chain_idem: "strip_chain (strip_chain s) = strip_chain s"
proof (induction s)
  case Nil
  show ?case by (simp add: strip_chain_Nil)
next
  case (Cons x xs)
  have "strip_chain (x # xs) = strip_chain [x] @ strip_chain xs"
    using strip_chain_append[of "[x]" xs] by simp
  then show ?case
    by (simp add: strip_chain_append strip_chain_single_idem Cons.IH)
qed

text \<open>
  Claim C8. Text normalization is idempotent: normalizing a normalized string changes
  nothing, for every string.
\<close>

theorem normalize_idempotent:
  "normalize_text_for_search (normalize_text_for_search s) = normalize_text_for_search s"
  by (simp add: normalize_chain strip_chain_idem)

section \<open>The replace operation on concrete paragraphs\<close>

text \<open>
  Claim C4. A run whose text is \<open>wo\<close>, U+200B, \<open>rd\<close> matches a search for \<open>word\<close>, and the
  claim says that the replacement leaves nothing of the run's text behind. The code finds
  the match in the normalized text, at offsets 0 to 4, and uses these offsets on the raw
  text of the run, which is one character longer: \<open>split_run_at\<close> cuts the run after the
  \<open>r\<close>, and the \<open>d\<close> stays in the paragraph behind the replacement.
\<close>

theorem zero_width_space_leaves_residue:
  "find_and_replace_text_preserve_formatting None
     \<lparr>paragraphs = [\<lparr>style = None, children = [R (Run 0 () [T [119, 111, 8203, 114, 100]])]\<rparr>],
      tables = []\<rparr>
     (ustr ''word'') (ustr ''X'')
   = (Inr 1,
      \<lparr>paragraphs = [\<lparr>style = None,
                       children = [R (Run 2 () [T (ustr ''X'')]), R (Run 1 () [T (ustr ''d'')])]\<rparr>],
       tables = []\<rparr>,
      [])"
  by code_simp

text \<open>
  Claim C3. With an empty replacement text the claim says that the runs covering a match
  are removed and nothing is inserted. The code removes the matched runs only under
  \<open>if replacement_runs and runs_to_replace\<close>, and an empty replacement text gives no
  replacement run: nothing is removed, the text of the paragraph stays, and the match is
  counted all the same. On the standard path the run \<open>abc\<close> is split and keeps its text; on
  the XML path (the run inside a wrapper element) the paragraph is unchanged.
\<close>

theorem empty_replacement_deletes_nothing:
  "find_and_replace_text_preserve_formatting None
     \<lparr>paragraphs = [\<lparr>style = None, children = [R (Run 0 () [T (ustr ''abc'')])]\<rparr>], tables = []\<rparr>
     (ustr ''b'') []
   = (Inr 1,
      \<lparr>paragraphs = [\<lparr>style = None,
                       children = [R (Run 0 () [T (ustr ''a'')]), R (Run 1 () [T (ustr ''bc'')])]\<rparr>],
       tables = []\<rparr>,
      [])
   \<and> find_and_replace_text_preserve_formatting None
     \<lparr>paragraphs = [\<lparr>style = None, children = [W [R (Run 0 () [T (ustr ''abc'')])]]\<rparr>], tables = []\<rparr>
     (ustr ''b'') []
   = (Inr 1,
      \<lparr>paragraphs = [\<lparr>style = None, children = [W [R (Run 0 () [T (ustr ''abc'')])]]\<rparr>], tables = []\<rparr>,
      [])"
  by code_simp

text \<open>
  Claim C7. The claim says that an empty search text gives no match span and no
  replacement. In the code \<open>"" in full_text\<close> is true and \<open>find\<close> finds the empty string at
  every position up to the length of the text: for the text \<open>ab\<close> the scan returns three
  empty spans. The span at position 1 lies inside the run, which is split there, and the
  second half is replaced: the paragraph reads \<open>aX\<close> and one replacement is counted. (A
  needle that does not occur gives no span: \<open>find\<close> answers \<open>-1\<close> at once.)
\<close>

theorem empty_search_text_replaces:
  "find_matches (ustr ''ab'') [] 0 = [(0, 0), (1, 1), (2, 2)]
   \<and> find_and_replace_text_preserve_formatting None
     \<lparr>paragraphs = [\<lparr>style = None, children = [R (Run 0 () [T (ustr ''ab'')])]\<rparr>], tables = []\<rparr>
     [] (ustr ''X'')
   = (Inr 1,
      \<lparr>paragraphs = [\<lparr>style = None,
                       children = [R (Run 0 () [T (ustr ''a'')]), R (Run 2 () [T (ustr ''X'')])]\<rparr>],
       tables = []\<rparr>,
      [])"
  by code_simp

text \<open>
  Claim C1. The claim says that a run outside every match span is the same before and
  after the call. The paragraph below has four runs \<open>a\<close> of style 0 and a run \<open>Z\<close> of style 1;
  the search text \<open>aaa\<close> has the two overlapping match spans 0 to 3 and 1 to 4, and the run
  \<open>Z\<close>, at 4 to 5, is outside both. The right match is processed first and puts one run in
  the place of three. The left match then reads the run indices 0 to 2 from the run map
  built before, which now reach the run \<open>Z\<close>: it is removed with the others.
\<close>

theorem run_outside_matches_removed:
  "build_run_map
     [Run 0 0 [T (ustr ''a'')], Run 1 0 [T (ustr ''a'')], Run 2 0 [T (ustr ''a'')],
      Run 3 0 [T (ustr ''a'')], Run 4 (1::nat) [T (ustr ''Z'')]] 0 []
   = (ustr ''aaaaZ'', [(0, 1, 0), (1, 2, 1), (2, 3, 2), (3, 4, 3), (4, 5, 4)])
   \<and> find_matches (ustr ''aaaaZ'') (ustr ''aaa'') 0 = [(0, 3), (1, 4)]
   \<and> find_and_replace_text_preserve_formatting None
     \<lparr>paragraphs =
        [\<lparr>style = None,
          children =
            [R (Run 0 0 [T (ustr ''a'')]), R (Run 1 0 [T (ustr ''a'')]),
             R (Run 2 0 [T (ustr ''a'')]), R (Run 3 0 [T (ustr ''a'')]),
             R (Run 4 (1::nat) [T (ustr ''Z'')])]\<rparr>],
      tables = []\<rparr>
     (ustr ''aaa'') (ustr ''b'')
   = (Inr 2,
      \<lparr>paragraphs = [\<lparr>style = None, children = [R (Run 6 0 [T (ustr ''b'')])]\<rparr>], tables = []\<rparr>,
      [])"
  by code_simp

text \<open>
  Claim C2. For a run with text \<open>T\<close> and an offset \<open>k\<close>, \<open>split_run_at\<close> returns
  \<open>(T[:k], T[k:])\<close>, and the claim says that the texts of the two runs it leaves give \<open>T\<close>
  again. The run below holds a tab and the text \<open>ab\<close>; it is split at 1. The setter of
  \<open>run.text\<close> stores the left text, a tab, as a \<open>w:tab\<close> with no \<open>w:t\<close>; the clone is a copy of
  that, and \<open>clone_run_with_text\<close> writes its text into the first \<open>w:t\<close> only, of which there
  is none. Both runs read as a tab, and \<open>ab\<close> is gone.
\<close>

theorem split_after_tab_loses_text:
  "run_text (Run 0 () [Tab, T (ustr ''ab'')]) = 9 # ustr ''ab''
   \<and> split_run_at (Run 0 () [Tab, T (ustr ''ab'')]) 1
        \<lparr>nodes = [R (Run 0 () [Tab, T (ustr ''ab'')])], nxt = 1\<rparr>
      = (([9], ustr ''ab''),
         \<lparr>nodes = [R (Run 0 () [Tab]), R (Run 1 () [Tab])], nxt = 2\<rparr>)
   \<and> concat (map run_text [Run 0 () [Tab], Run 1 () [Tab]]) = [9, 9]"
  by code_simp


end
